theory Spec2Isabelle
  imports Complex_Main "HOL-Library.Log_Nat"
begin

section \<open>Numbers and errors\<close>

text \<open>
  The repository computes with Python floats. They are modelled as exact reals:
  rounding, overflow and the sign of zero are not modelled. The one exception is the
  binary64 evaluation of the pricing model, which rounds every result.
  Python's \<^verbatim>\<open>int\<close> is \<open>int\<close>; an \<^verbatim>\<open>int\<close> operand of a float operation
  is converted with \<open>of_int\<close>, as Python converts it.

  A float division whose divisor is zero raises the built-in exception
  \<^verbatim>\<open>ZeroDivisionError\<close>. \<open>InvalidRateError\<close> is the error kind that the
  specification names for a vanishing denominator; no statement of the repository raises
  it, and the constructor is here so that theorems can say so.
\<close>

datatype py_error = ZeroDivisionError | InvalidRateError

section \<open>Pricing model (cip.py)\<close>

text \<open>
  \<^verbatim>\<open>return spot * (1 + r_dom * tenor_days / 360) / (1 + r_for * tenor_days / 360)\<close>

  The function has no guard; the only failure is the one of the division itself.
\<close>

definition theoretical_forward :: "real \<Rightarrow> real \<Rightarrow> real \<Rightarrow> int \<Rightarrow> py_error + real" where
  "theoretical_forward spot r_dom r_for tenor_days =
     (let num = spot * (1 + r_dom * of_int tenor_days / 360);
          den = 1 + r_for * of_int tenor_days / 360
      in if den = 0 then Inl ZeroDivisionError else Inr (num / den))"

text \<open>
  \<^verbatim>\<open>return (obs_fwd - theo_fwd) / theo_fwd * 10_000\<close>
\<close>

definition deviation_bps :: "real \<Rightarrow> real \<Rightarrow> py_error + real" where
  "deviation_bps obs_fwd theo_fwd =
     (if theo_fwd = 0 then Inl ZeroDivisionError
      else Inr ((obs_fwd - theo_fwd) / theo_fwd * 10000))"

section \<open>Binary64 evaluation of the pricing model\<close>

text \<open>
  A Python float is an IEEE 754 binary64 number, and every float operation returns the
  exact result rounded to the nearest number with a 53-bit significand, ties going to the
  even significand. \<open>round_f64\<close> is this rounding for results in the normal range (the
  exponent range, hence overflow and subnormal numbers, is not modelled).

  \<open>expo x\<close> is the binary exponent of a nonzero \<open>x\<close>: the \<open>e\<close> with
  \<open>2^e \<le> \<bar>x\<bar> < 2^(e+1)\<close>.
\<close>

definition pow2 :: "int \<Rightarrow> real" where
  "pow2 e = (if 0 \<le> e then 2 ^ nat e else 1 / 2 ^ nat (- e))"

definition expo :: "real \<Rightarrow> int" where
  "expo x =
     (let a = \<bar>x\<bar>
      in if 1 \<le> a then bitlen \<lfloor>a\<rfloor> - 1 else - bitlen (\<lceil>1 / a\<rceil> - 1))"

definition round_half_even :: "real \<Rightarrow> int" where
  "round_half_even q =
     (let n = \<lfloor>q\<rfloor>; f = q - of_int n
      in if f < 1 / 2 then n
         else if 1 / 2 < f then n + 1
         else if even n then n else n + 1)"

definition round_f64 :: "real \<Rightarrow> real" where
  "round_f64 x =
     (if x = 0 then 0
      else (let ulp = pow2 (expo x - 52) in of_int (round_half_even (x / ulp)) * ulp))"

text \<open>
  \<open>theoretical_forward\<close> again, with the result of every operation rounded by
  \<open>rnd\<close>, in Python's order of evaluation (\<^verbatim>\<open>*\<close> and \<^verbatim>\<open>/\<close> associate to the left).
  The arguments are taken to be numbers of the format already; the integers 1, 360 and
  \<open>tenor_days\<close> (below \<open>2^53\<close> in magnitude) convert exactly. With \<open>round_f64\<close> for
  \<open>rnd\<close> this is the function as Python evaluates it.
\<close>

definition theoretical_forward_rounded ::
  "(real \<Rightarrow> real) \<Rightarrow> real \<Rightarrow> real \<Rightarrow> real \<Rightarrow> int \<Rightarrow> py_error + real" where
  "theoretical_forward_rounded rnd spot r_dom r_for tenor_days =
     (let num = rnd (spot * rnd (1 + rnd (rnd (r_dom * of_int tenor_days) / 360)));
          den = rnd (1 + rnd (rnd (r_for * of_int tenor_days) / 360))
      in if den = 0 then Inl ZeroDivisionError else Inr (rnd (num / den)))"

definition theoretical_forward_f64 :: "real \<Rightarrow> real \<Rightarrow> real \<Rightarrow> int \<Rightarrow> py_error + real" where
  "theoretical_forward_f64 = theoretical_forward_rounded round_f64"

section \<open>Signal classification\<close>

text \<open>
  app.py, lines 135-140: the dashboard labels a deviation with one of three strings,
  \<^verbatim>\<open>"Rich -> Sell forward"\<close>, \<^verbatim>\<open>"Cheap -> Buy forward"\<close> and
  \<^verbatim>\<open>"No arbitrage"\<close>, in an if/elif/else chain.
\<close>

datatype sig_label = Rich_Sell_forward | Cheap_Buy_forward | No_arbitrage

definition app_signal :: "real \<Rightarrow> real \<Rightarrow> sig_label" where
  "app_signal dev_bps threshold_bps =
     (if dev_bps > threshold_bps then Rich_Sell_forward
      else if dev_bps < - threshold_bps then Cheap_Buy_forward
      else No_arbitrage)"

text \<open>
  The drivers compute the deviation with pandas, whose float division does not raise:
  a zero divisor gives an infinity (with the sign of the dividend; zero is taken as
  \<open>+0.0\<close>) or, for a zero dividend, NaN. A missing value is NaN as well. A comparison
  with NaN is false.
\<close>

datatype fcell = Num real | PosInf | NegInf | NaN

fun cell_gt :: "fcell \<Rightarrow> real \<Rightarrow> bool" where
  "cell_gt (Num x) t = (t < x)"
| "cell_gt PosInf t = True"
| "cell_gt NegInf t = False"
| "cell_gt NaN t = False"

fun cell_lt :: "fcell \<Rightarrow> real \<Rightarrow> bool" where
  "cell_lt (Num x) t = (x < t)"
| "cell_lt PosInf t = False"
| "cell_lt NegInf t = True"
| "cell_lt NaN t = False"

text \<open>
  optimize.py, lines 71-73: the signal column starts at 0; the rows above the threshold
  are set to -1 (sell), then the rows below its negation to +1 (buy).
\<close>

definition run_backtest_signal :: "real \<Rightarrow> fcell \<Rightarrow> int" where
  "run_backtest_signal threshold_bps dev =
     (let s0 = 0;
          s1 = (if cell_gt dev threshold_bps then - 1 else s0);
          s2 = (if cell_lt dev (- threshold_bps) then 1 else s1)
      in s2)"

text \<open>
  backtest.py, lines 100-102: the same two assignments against the literal 0.
\<close>

definition backtest_signal :: "fcell \<Rightarrow> int" where
  "backtest_signal dev =
     (let s0 = 0;
          s1 = (if cell_gt dev 0 then - 1 else s0);
          s2 = (if cell_lt dev 0 then 1 else s1)
      in s2)"

section \<open>PnL\<close>

text \<open>
  A column cell that can be missing is a \<open>real option\<close>, \<open>None\<close> for NaN; arithmetic
  with a NaN operand gives NaN (also \<open>0 * NaN\<close>).

  One row of optimize.py, lines 74-79, and of backtest.py, lines 105-110 (the two are
  the same text):
  \<^verbatim>\<open>
  cost = spread_bps / 10_000 * notional
  df["raw_pnl"] = df["signal"] * (df["exit_spot"] - df["obs_fwd"]) * notional
  df["pnl"] = df["raw_pnl"] - df["signal"].abs() * cost
  stop_amt = stop_loss_bps / 10_000 * notional
  df.loc[df["pnl"] < -stop_amt, "pnl"] = -stop_amt
  \<close>
\<close>

definition raw_pnl_cell :: "real \<Rightarrow> int \<Rightarrow> real option \<Rightarrow> real option \<Rightarrow> real option" where
  "raw_pnl_cell notional signal exit_spot obs_fwd =
     (case (exit_spot, obs_fwd) of
        (Some ex, Some ob) \<Rightarrow> Some (of_int signal * (ex - ob) * notional)
      | _ \<Rightarrow> None)"

definition pnl_cell :: "real \<Rightarrow> real \<Rightarrow> int \<Rightarrow> real option \<Rightarrow> real option" where
  "pnl_cell cost stop_amt signal raw_pnl =
     (let pnl = map_option (\<lambda>r. r - of_int \<bar>signal\<bar> * cost) raw_pnl
      in map_option (\<lambda>p. if p < - stop_amt then - stop_amt else p) pnl)"

definition row_pnl :: "real \<Rightarrow> real \<Rightarrow> real \<Rightarrow> int \<Rightarrow> real option \<Rightarrow> real option \<Rightarrow> real option" where
  "row_pnl notional spread_bps stop_loss_bps signal exit_spot obs_fwd =
     (let cost = spread_bps / 10000 * notional;
          raw_pnl = raw_pnl_cell notional signal exit_spot obs_fwd;
          stop_amt = stop_loss_bps / 10000 * notional
      in pnl_cell cost stop_amt signal raw_pnl)"

text \<open>
  app.py, lines 142-148: the dashboard's PnL figure of one currency pair. It is computed
  after the signal and does not read it.
\<close>

definition app_pnl :: "real \<Rightarrow> real \<Rightarrow> real \<Rightarrow> real \<Rightarrow> real" where
  "app_pnl obs_fwd theo_fwd spread_bps stop_loss_bps =
     (let cost = spread_bps / 10000 * 1000000;
          raw_pnl = (obs_fwd - theo_fwd) * 1000000;
          pnl = raw_pnl - cost;
          stop_amt = stop_loss_bps / 10000 * 1000000
      in if pnl < - stop_amt then - stop_amt else pnl)"

text \<open>
  app.py, lines 119-148, for one pair: the deviation, its label and the PnL figure
  (the two history buffers, which these do not read, are left out).
\<close>

definition app_row :: "real \<Rightarrow> real \<Rightarrow> real \<Rightarrow> real \<Rightarrow> real \<Rightarrow> py_error + (real \<times> sig_label \<times> real)" where
  "app_row obs_fwd theo_fwd threshold_bps spread_bps stop_loss_bps =
     (case deviation_bps obs_fwd theo_fwd of
        Inl e \<Rightarrow> Inl e
      | Inr dev_bps \<Rightarrow>
          Inr (dev_bps, app_signal dev_bps threshold_bps,
               app_pnl obs_fwd theo_fwd spread_bps stop_loss_bps))"

section \<open>Backtest and optimisation drivers\<close>

text \<open>
  A pandas Series indexed by date is a list of (date, value) pairs in index order, dates
  being day numbers. \<open>reindex\<close> looks each date of the new index up (NaN where the
  series has none), \<open>ffill\<close> replaces a NaN by the last value before it (a leading NaN
  stays), and \<open>shift_neg k\<close> is \<^verbatim>\<open>Series.shift(-k)\<close>: row \<open>i\<close> receives the value
  of row \<open>i + k\<close>, NaN where there is no such row.
\<close>

type_synonym series = "(nat \<times> real) list"

definition reindex :: "series \<Rightarrow> nat list \<Rightarrow> real option list" where
  "reindex s idx = map (map_of s) idx"

fun ffill_from :: "real option \<Rightarrow> real option list \<Rightarrow> real option list" where
  "ffill_from prev [] = []"
| "ffill_from prev (None # xs) = prev # ffill_from prev xs"
| "ffill_from prev (Some v # xs) = Some v # ffill_from (Some v) xs"

definition ffill :: "real option list \<Rightarrow> real option list" where
  "ffill xs = ffill_from None xs"

definition shift_neg :: "int \<Rightarrow> real list \<Rightarrow> real option list" where
  "shift_neg k xs =
     map (\<lambda>i. let j = int i + k
               in if 0 \<le> j \<and> j < int (length xs) then Some (xs ! nat j) else None)
         [0..<length xs]"

text \<open>
  \<^verbatim>\<open>df["spot"].apply(lambda s: theoretical_forward(s, r_dom, r_for, tenor_days))\<close>:
  the first call that raises ends the run.
\<close>

fun apply_theoretical_forward :: "real list \<Rightarrow> real \<Rightarrow> real \<Rightarrow> int \<Rightarrow> py_error + real list" where
  "apply_theoretical_forward [] r_dom r_for tenor_days = Inr []"
| "apply_theoretical_forward (s # ss) r_dom r_for tenor_days =
     (case theoretical_forward s r_dom r_for tenor_days of
        Inl e \<Rightarrow> Inl e
      | Inr f \<Rightarrow>
          (case apply_theoretical_forward ss r_dom r_for tenor_days of
             Inl e \<Rightarrow> Inl e
           | Inr fs \<Rightarrow> Inr (f # fs)))"

text \<open>
  \<^verbatim>\<open>df["obs_fwd"] = df["spot"] + df["swap_pts"] * tenor_days / 360\<close> and
  \<^verbatim>\<open>df["dev_bps"] = (df["obs_fwd"] - df["theo_fwd"]) / df["theo_fwd"] * 10_000\<close>,
  for one row.
\<close>

definition obs_fwd_cell :: "int \<Rightarrow> real \<Rightarrow> real option \<Rightarrow> real option" where
  "obs_fwd_cell tenor_days spot swap_pts =
     map_option (\<lambda>w. spot + w * of_int tenor_days / 360) swap_pts"

definition dev_bps_cell :: "real option \<Rightarrow> real \<Rightarrow> fcell" where
  "dev_bps_cell obs_fwd theo_fwd =
     (case obs_fwd of
        None \<Rightarrow> NaN
      | Some ob \<Rightarrow>
          if theo_fwd \<noteq> 0 then Num ((ob - theo_fwd) / theo_fwd * 10000)
          else if 0 < ob - theo_fwd then PosInf
          else if ob - theo_fwd < 0 then NegInf
          else NaN)"

text \<open>
  The summary of both drivers (optimize.py, lines 80-86; backtest.py, lines 113-121).
  \<open>trades\<close> holds the signal and the PnL of every row whose PnL is not NaN.
  \<^verbatim>\<open>
  trades = df.dropna(subset=["pnl"])
  total_pnl  = trades["pnl"].sum()
  num_trades = (trades["signal"] != 0).sum()
  win_rate   = trades["pnl"].gt(0).mean() * 100 if num_trades else 0
  avg_pnl    = trades["pnl"].mean() if num_trades else 0
  equity     = trades["pnl"].cumsum()
  max_dd     = (equity.cummax() - equity).max() if not equity.empty else 0
  \<close>
\<close>

record metrics =
  total_pnl :: real
  num_trades :: nat
  win_rate :: real
  avg_pnl :: real
  max_drawdown :: real

definition dropna_pnl :: "(int \<times> real option) list \<Rightarrow> (int \<times> real) list" where
  "dropna_pnl rows = List.map_filter (\<lambda>(sg, p). map_option (Pair sg) p) rows"

definition mean :: "real list \<Rightarrow> real" where
  "mean xs = sum_list xs / of_nat (length xs)"

fun cumsum_from :: "real \<Rightarrow> real list \<Rightarrow> real list" where
  "cumsum_from acc [] = []"
| "cumsum_from acc (x # xs) = (acc + x) # cumsum_from (acc + x) xs"

fun cummax_from :: "real \<Rightarrow> real list \<Rightarrow> real list" where
  "cummax_from m [] = []"
| "cummax_from m (x # xs) = max m x # cummax_from (max m x) xs"

definition cummax :: "real list \<Rightarrow> real list" where
  "cummax xs = (case xs of [] \<Rightarrow> [] | x # _ \<Rightarrow> cummax_from x xs)"

definition summary :: "(int \<times> real) list \<Rightarrow> metrics" where
  "summary trades =
     (let pnls = map snd trades;
          n = length (filter (\<lambda>(sg, p). sg \<noteq> 0) trades);
          equity = cumsum_from 0 pnls
      in \<lparr> total_pnl = sum_list pnls,
           num_trades = n,
           win_rate = (if n \<noteq> 0 then mean (map (\<lambda>p. if 0 < p then 1 else 0) pnls) * 100 else 0),
           avg_pnl = (if n \<noteq> 0 then mean pnls else 0),
           max_drawdown =
             (case map2 (\<lambda>m e. m - e) (cummax equity) equity of
                [] \<Rightarrow> 0
              | d # ds \<Rightarrow> fold max ds d) \<rparr>)"

text \<open>
  The data frame \<^verbatim>\<open>df\<close> of the drivers, column by column (the PnL column as it is
  after the stop-loss assignment).
\<close>

record frame =
  spot_col :: "real list"
  swap_pts_col :: "real option list"
  theo_fwd_col :: "real list"
  obs_fwd_col :: "real option list"
  dev_bps_col :: "fcell list"
  signal_col :: "int list"
  exit_spot_col :: "real option list"
  raw_pnl_col :: "real option list"
  pnl_col :: "real option list"

text \<open>
  The frame from the signal column on (optimize.py, lines 74-79; backtest.py, lines
  105-110).
\<close>

definition pnl_frame ::
  "real list \<Rightarrow> real option list \<Rightarrow> real list \<Rightarrow> real option list \<Rightarrow> fcell list \<Rightarrow> int list \<Rightarrow>
   int \<Rightarrow> real \<Rightarrow> real \<Rightarrow> real \<Rightarrow> frame" where
  "pnl_frame spots swaps theos obss devs signals tenor_days notional spread_bps stop_loss_bps =
     (let cost = spread_bps / 10000 * notional;
          exits = shift_neg tenor_days spots;
          raws = map (\<lambda>(sg, ex, ob). raw_pnl_cell notional sg ex ob) (zip signals (zip exits obss));
          stop_amt = stop_loss_bps / 10000 * notional;
          pnls = map2 (pnl_cell cost stop_amt) signals raws
      in \<lparr> spot_col = spots, swap_pts_col = swaps, theo_fwd_col = theos, obs_fwd_col = obss,
           dev_bps_col = devs, signal_col = signals, exit_spot_col = exits,
           raw_pnl_col = raws, pnl_col = pnls \<rparr>)"

text \<open>
  \<open>run_backtest\<close> of optimize.py. The two series are its arguments \<^verbatim>\<open>spot\<close> and
  \<^verbatim>\<open>swap_pts\<close>; the frame's index is the index of \<^verbatim>\<open>spot\<close>.
  \<open>run_backtest_frame\<close> is the frame at line 79, \<open>trades_of\<close> the rows that
  \<^verbatim>\<open>dropna\<close> keeps, with their signal and PnL.
\<close>

definition run_backtest_frame ::
  "series \<Rightarrow> series \<Rightarrow> real \<Rightarrow> real \<Rightarrow> real \<Rightarrow> int \<Rightarrow> real \<Rightarrow> real \<Rightarrow> real \<Rightarrow> py_error + frame" where
  "run_backtest_frame spot swap_pts threshold_bps stop_loss_bps spread_bps tenor_days r_dom r_for notional =
     (let spots = map snd spot;
          swaps = ffill (reindex swap_pts (map fst spot))
      in case apply_theoretical_forward spots r_dom r_for tenor_days of
           Inl e \<Rightarrow> Inl e
         | Inr theos \<Rightarrow>
             (let obss = map2 (obs_fwd_cell tenor_days) spots swaps;
                  devs = map2 dev_bps_cell obss theos;
                  signals = map (run_backtest_signal threshold_bps) devs
              in Inr (pnl_frame spots swaps theos obss devs signals
                        tenor_days notional spread_bps stop_loss_bps)))"

definition trades_of :: "frame \<Rightarrow> (int \<times> real) list" where
  "trades_of df = dropna_pnl (zip (signal_col df) (pnl_col df))"

definition run_backtest ::
  "series \<Rightarrow> series \<Rightarrow> real \<Rightarrow> real \<Rightarrow> real \<Rightarrow> int \<Rightarrow> real \<Rightarrow> real \<Rightarrow> real \<Rightarrow> py_error + metrics" where
  "run_backtest spot swap_pts threshold_bps stop_loss_bps spread_bps tenor_days r_dom r_for notional =
     (case run_backtest_frame spot swap_pts threshold_bps stop_loss_bps spread_bps
             tenor_days r_dom r_for notional of
        Inl e \<Rightarrow> Inl e
      | Inr df \<Rightarrow> Inr (summary (trades_of df)))"

text \<open>
  \<open>backtest\<close> of backtest.py, from the two fetched series to the figures it prints. It
  has no threshold parameter: its parameters are the pair, \<^verbatim>\<open>tenor_days\<close>,
  \<^verbatim>\<open>r_dom\<close>, \<^verbatim>\<open>r_for\<close>, \<^verbatim>\<open>notional\<close>, \<^verbatim>\<open>spread_bps\<close>,
  \<^verbatim>\<open>stop_loss_bps\<close> and \<^verbatim>\<open>history_days\<close>.
\<close>

definition backtest_frame ::
  "series \<Rightarrow> series \<Rightarrow> int \<Rightarrow> real \<Rightarrow> real \<Rightarrow> real \<Rightarrow> real \<Rightarrow> real \<Rightarrow> py_error + frame" where
  "backtest_frame spot swap_pts tenor_days r_dom r_for notional spread_bps stop_loss_bps =
     (let spots = map snd spot
      in case apply_theoretical_forward spots r_dom r_for tenor_days of
           Inl e \<Rightarrow> Inl e
         | Inr theos \<Rightarrow>
             (let swaps = ffill (reindex swap_pts (map fst spot));
                  obss = map2 (obs_fwd_cell tenor_days) spots swaps;
                  devs = map2 dev_bps_cell obss theos;
                  signals = map backtest_signal devs
              in Inr (pnl_frame spots swaps theos obss devs signals
                        tenor_days notional spread_bps stop_loss_bps)))"

definition backtest ::
  "series \<Rightarrow> series \<Rightarrow> int \<Rightarrow> real \<Rightarrow> real \<Rightarrow> real \<Rightarrow> real \<Rightarrow> real \<Rightarrow> py_error + metrics" where
  "backtest spot swap_pts tenor_days r_dom r_for notional spread_bps stop_loss_bps =
     (case backtest_frame spot swap_pts tenor_days r_dom r_for notional spread_bps stop_loss_bps of
        Inl e \<Rightarrow> Inl e
      | Inr df \<Rightarrow> Inr (summary (trades_of df)))"

text \<open>
  The win rate as the specification words it, for comparison: the fraction, among the
  rows with a nonzero signal, of those whose PnL is positive.
\<close>

definition spec_win_fraction :: "(int \<times> real) list \<Rightarrow> real" where
  "spec_win_fraction trades =
     (let active = filter (\<lambda>(sg, p). sg \<noteq> 0) trades
      in of_nat (length (filter (\<lambda>(sg, p). 0 < p) active)) / of_nat (length active))"

section \<open>Monte-Carlo path simulator (app.py)\<close>

text \<open>
  \<^verbatim>\<open>
  def simulate_pnl(spot0, obs_fwd, days, sims=500):
      pnls = []
      for _ in range(sims):
          path = spot0
          daily = []
          for _ in range(days):
              shock = random.uniform(-0.005, 0.005)
              path *= (1 + shock)
              daily.append(1e6 * (path - obs_fwd))
          pnls.append(daily)
      return np.array(pnls)
  \<close>
  The function draws from the generator of Python's \<^verbatim>\<open>random\<close> module, a state of
  the process that is not among its parameters and that no file of the repository seeds.
  The generator is modelled by the sequence \<open>g\<close> of the numbers that its next calls of
  \<^verbatim>\<open>random.random()\<close> return, and \<open>k\<close> counts the draws made so far;
  \<^verbatim>\<open>random.uniform(a, b)\<close> is \<^verbatim>\<open>a + (b - a) * random.random()\<close>.
\<close>

type_synonym rng = "nat \<Rightarrow> real"

definition uniform :: "rng \<Rightarrow> nat \<Rightarrow> real \<Rightarrow> real \<Rightarrow> real" where
  "uniform g k a b = a + (b - a) * g k"

fun sim_days :: "rng \<Rightarrow> nat \<Rightarrow> real \<Rightarrow> real \<Rightarrow> nat \<Rightarrow> real list" where
  "sim_days g k path obs_fwd 0 = []"
| "sim_days g k path obs_fwd (Suc n) =
     (let shock = uniform g k (- (5 / 1000)) (5 / 1000);
          path' = path * (1 + shock)
      in 1000000 * (path' - obs_fwd) # sim_days g (Suc k) path' obs_fwd n)"

fun sim_runs :: "rng \<Rightarrow> nat \<Rightarrow> real \<Rightarrow> real \<Rightarrow> nat \<Rightarrow> nat \<Rightarrow> real list list" where
  "sim_runs g k spot0 obs_fwd days 0 = []"
| "sim_runs g k spot0 obs_fwd days (Suc m) =
     sim_days g k spot0 obs_fwd days # sim_runs g (k + days) spot0 obs_fwd days m"

text \<open>
  \<^verbatim>\<open>range(n)\<close> is empty for \<open>n \<le> 0\<close>, which is what \<open>nat\<close> gives.
\<close>

definition simulate_pnl :: "rng \<Rightarrow> real \<Rightarrow> real \<Rightarrow> int \<Rightarrow> int \<Rightarrow> real list list" where
  "simulate_pnl g spot0 obs_fwd days sims = sim_runs g 0 spot0 obs_fwd (nat days) (nat sims)"

section \<open>Pricing model: results\<close>

text \<open>
  C1. For every spot, r_dom, r_for and tenor_days with
  \<open>1 + r_for * tenor_days / 360 \<noteq> 0\<close> (for a positive tenor_days in particular),
  \<open>theoretical_forward\<close> returns
  \<open>spot * (1 + r_dom * tenor_days / 360) / (1 + r_for * tenor_days / 360)\<close>.
\<close>

theorem theoretical_forward_formula:
  assumes "1 + r_for * of_int tenor_days / 360 \<noteq> 0"
  shows "theoretical_forward spot r_dom r_for tenor_days =
           Inr (spot * (1 + r_dom * of_int tenor_days / 360) /
                  (1 + r_for * of_int tenor_days / 360))"
  using assms by (simp add: theoretical_forward_def Let_def)

theorem theoretical_forward_formula_witness:
  "1 + (1 / 100) * of_int 36 / 360 \<noteq> (0::real) \<and>
   theoretical_forward 1000 (2 / 100) (1 / 100) 36 = Inr (1002000 / 1001)"
proof -
  have h: "1 + (1 / 100) * of_int 36 / 360 \<noteq> (0::real)" by simp
  show ?thesis
    using h theoretical_forward_formula [OF h, of 1000 "2 / 100"] by simp
qed

text \<open>
  C2 (as the code has it). \<open>theoretical_forward\<close> fails exactly when
  \<open>1 + r_for * tenor_days / 360 = 0\<close>, and then with the \<^verbatim>\<open>ZeroDivisionError\<close> that the
  division itself raises: the function has no guard, and no input makes it raise an
  \<open>InvalidRateError\<close>. For every other input it returns a value.
\<close>

theorem theoretical_forward_failure:
  "((theoretical_forward spot r_dom r_for tenor_days = Inl ZeroDivisionError) =
      (1 + r_for * of_int tenor_days / 360 = 0)) \<and>
   ((\<exists>v. theoretical_forward spot r_dom r_for tenor_days = Inr v) =
      (1 + r_for * of_int tenor_days / 360 \<noteq> 0)) \<and>
   theoretical_forward spot r_dom r_for tenor_days \<noteq> Inl InvalidRateError"
  by (simp add: theoretical_forward_def Let_def)

text \<open>
  At \<open>r_for = -12\<close> and \<open>tenor_days = 30\<close> the denominator is zero, and the error is
  \<^verbatim>\<open>ZeroDivisionError\<close>, not \<open>InvalidRateError\<close>.
\<close>

theorem theoretical_forward_raises_ZeroDivisionError:
  "1 + (- 12) * of_int 30 / 360 = (0::real) \<and>
   theoretical_forward 1 (1 / 40) (- 12) 30 = Inl ZeroDivisionError \<and>
   theoretical_forward 1 (1 / 40) (- 12) 30 \<noteq> Inl InvalidRateError"
  by (simp add: theoretical_forward_def)

text \<open>
  C3. \<open>deviation_bps observed theoretical\<close> returns
  \<open>(observed - theoretical) / theoretical * 10000\<close> when \<open>theoretical \<noteq> 0\<close>, and fails,
  with \<^verbatim>\<open>ZeroDivisionError\<close>, exactly when \<open>theoretical = 0\<close>.
\<close>

theorem deviation_bps_result:
  "(theo_fwd \<noteq> 0 \<longrightarrow>
      deviation_bps obs_fwd theo_fwd = Inr ((obs_fwd - theo_fwd) / theo_fwd * 10000)) \<and>
   ((\<exists>e. deviation_bps obs_fwd theo_fwd = Inl e) = (theo_fwd = 0)) \<and>
   ((deviation_bps obs_fwd theo_fwd = Inl ZeroDivisionError) = (theo_fwd = 0))"
  by (simp add: deviation_bps_def)

theorem deviation_bps_result_witness:
  "(2::real) \<noteq> 0 \<and> deviation_bps 3 2 = Inr 5000 \<and> deviation_bps 3 0 = Inl ZeroDivisionError"
  using deviation_bps_result [of 2 3] deviation_bps_result [of 0 3] by simp

text \<open>
  Without rounding, the rounded evaluation is the exact one.
\<close>

lemma theoretical_forward_rounded_exact:
  "theoretical_forward_rounded (\<lambda>x. x) spot r_dom r_for tenor_days =
     theoretical_forward spot r_dom r_for tenor_days"
  by (simp add: theoretical_forward_rounded_def theoretical_forward_def)

text \<open>
  In exact arithmetic the two factors cancel when the rates are equal: whatever differs
  from the spot there is rounding.
\<close>

lemma theoretical_forward_equal_rates_exact:
  "1 + r * of_int tenor_days / 360 \<noteq> 0 \<Longrightarrow> theoretical_forward spot r r tenor_days = Inr spot"
  by (simp add: theoretical_forward_def Let_def)

text \<open>
  The rounding is the one of IEEE 754 in the normal range: \<open>expo\<close> is the binary
  exponent, the result is a multiple of the unit in the last place with a significand
  of 53 bits, no such multiple is nearer to the exact value, a tie is resolved to the
  even significand (\<open>round_half_even_tie\<close>), and a number that is such a multiple
  already is returned unchanged.
\<close>

lemma pow2_pos: "0 < pow2 e"
  by (simp add: pow2_def)

lemma pow2_succ: "pow2 (e + 1) = 2 * pow2 e"
proof (cases "0 \<le> e")
  case True
  then show ?thesis by (simp add: pow2_def nat_add_distrib)
next
  case False
  then have "nat (- e) = Suc (nat (- (e + 1)))" by simp
  then show ?thesis using False by (auto simp: pow2_def)
qed

lemma round_half_even_of_int: "round_half_even (of_int n) = n"
  by (simp add: round_half_even_def)

lemma round_half_even_error: "\<bar>of_int (round_half_even q) - q\<bar> \<le> 1 / 2"
  unfolding round_half_even_def Let_def by (auto; linarith)

lemma round_half_even_nearest: "\<bar>of_int (round_half_even q) - q\<bar> \<le> \<bar>of_int m - q\<bar>"
proof (rule ccontr)
  assume "\<not> ?thesis"
  then have less: "\<bar>of_int m - q\<bar> < \<bar>of_int (round_half_even q) - q\<bar>" by simp
  with round_half_even_error [of q] have "\<bar>of_int m - q\<bar> < 1 / 2" by simp
  with round_half_even_error [of q]
  have "\<bar>(of_int m :: real) - of_int (round_half_even q)\<bar> < 1" by linarith
  then have "\<bar>m - round_half_even q\<bar> < 1"
    by (metis of_int_diff of_int_abs of_int_less_1_iff)
  then have "m = round_half_even q" by simp
  with less show False by simp
qed

lemma round_half_even_tie:
  "\<bar>of_int (round_half_even q) - q\<bar> = 1 / 2 \<Longrightarrow> even (round_half_even q)"
  unfolding round_half_even_def Let_def
  by (auto split: if_splits; linarith)

lemma expo_bounds:
  assumes "x \<noteq> 0"
  shows "pow2 (expo x) \<le> \<bar>x\<bar> \<and> \<bar>x\<bar> < pow2 (expo x + 1)"
proof (cases "1 \<le> \<bar>x\<bar>")
  case True
  define n where "n = \<lfloor>\<bar>x\<bar>\<rfloor>"
  have n: "0 < n" using True by (simp add: n_def)
  have e: "expo x = bitlen n - 1"
    using True by (simp add: expo_def n_def)
  have b1: "1 \<le> bitlen n" using n by (auto simp: bitlen_alt_def)
  from bitlen_bounds [OF n] have lo: "2 ^ nat (bitlen n - 1) \<le> n" and hi: "n < 2 ^ nat (bitlen n)"
    by simp_all
  have "(2::real) ^ nat (bitlen n - 1) \<le> of_int n"
    using lo by (metis of_int_le_iff of_int_numeral of_int_power)
  also have "\<dots> \<le> \<bar>x\<bar>" by (simp add: n_def)
  finally have L: "pow2 (expo x) \<le> \<bar>x\<bar>"
    using b1 by (simp add: e pow2_def)
  have "n + 1 \<le> 2 ^ nat (bitlen n)" using hi by simp
  then have "(of_int (n + 1) :: real) \<le> 2 ^ nat (bitlen n)"
    by (metis of_int_le_iff of_int_numeral of_int_power)
  moreover have "\<bar>x\<bar> < of_int (n + 1)" by (simp add: n_def)
  ultimately have "\<bar>x\<bar> < 2 ^ nat (bitlen n)" by linarith
  then have U: "\<bar>x\<bar> < pow2 (expo x + 1)"
    using b1 by (simp add: e pow2_def)
  from L U show ?thesis by simp
next
  case False
  define a where "a = \<bar>x\<bar>"
  define m where "m = \<lceil>1 / a\<rceil>"
  define k where "k = bitlen (m - 1)"
  have a: "0 < a" "a < 1" using assms False by (simp_all add: a_def)
  then have y: "1 < 1 / a" by simp
  then have m: "2 \<le> m" unfolding m_def by linarith
  then have m1: "0 < m - 1" by simp
  have e: "expo x = - k"
    using False by (simp add: expo_def a_def m_def k_def)
  have k1: "1 \<le> k" using m1 by (auto simp: k_def bitlen_alt_def)
  from bitlen_bounds [OF m1] have lo: "2 ^ nat (k - 1) \<le> m - 1" and hi: "m - 1 < 2 ^ nat k"
    by (simp_all add: k_def)
  have "m \<le> 2 ^ nat k" using hi by simp
  then have "(of_int m :: real) \<le> 2 ^ nat k"
    by (metis of_int_le_iff of_int_numeral of_int_power)
  moreover have "1 / a \<le> of_int m" by (simp add: m_def)
  ultimately have "1 / a \<le> 2 ^ nat k" by linarith
  then have "1 \<le> 2 ^ nat k * a" using a by (simp add: field_simps)
  then have "1 / 2 ^ nat k \<le> a" by (simp add: field_simps)
  then have L: "pow2 (expo x) \<le> \<bar>x\<bar>"
    using k1 by (simp add: e pow2_def a_def)
  have "(2::real) ^ nat (k - 1) \<le> of_int (m - 1)"
    using lo by (metis of_int_le_iff of_int_numeral of_int_power)
  moreover have "of_int (m - 1) < 1 / a" unfolding m_def by linarith
  ultimately have "2 ^ nat (k - 1) < 1 / a" by linarith
  then have "2 ^ nat (k - 1) * a < 1" using a by (simp add: field_simps)
  then have lt: "a < 1 / 2 ^ nat (k - 1)" by (simp add: field_simps)
  have U: "\<bar>x\<bar> < pow2 (expo x + 1)"
  proof (cases "k = 1")
    case True
    then show ?thesis using a by (simp add: e pow2_def a_def)
  next
    case False
    with k1 have "1 < k" by simp
    then have "nat (- (- k + 1)) = nat (k - 1)" "\<not> 0 \<le> - k + 1" by simp_all
    then show ?thesis using lt by (simp add: e pow2_def a_def)
  qed
  from L U show ?thesis by simp
qed

lemma pow2_add_nat: "pow2 (e + int k) = 2 ^ k * pow2 e"
proof (induction k)
  case 0
  show ?case by simp
next
  case (Suc k)
  have "e + int (Suc k) = (e + int k) + 1" by simp
  then have "pow2 (e + int (Suc k)) = pow2 ((e + int k) + 1)" by (rule arg_cong)
  also have "\<dots> = 2 * pow2 (e + int k)" by (rule pow2_succ)
  finally show ?case using Suc.IH by simp
qed

lemma round_half_even_between:
  "\<lfloor>q\<rfloor> \<le> round_half_even q \<and> round_half_even q \<le> \<lceil>q\<rceil>"
  unfolding round_half_even_def Let_def by (auto; linarith)

lemma round_f64_nearest:
  assumes "x \<noteq> 0"
  shows "\<bar>round_f64 x - x\<bar> \<le> \<bar>of_int m * pow2 (expo x - 52) - x\<bar>"
proof -
  define u where "u = pow2 (expo x - 52)"
  have u: "0 < u" by (simp add: u_def pow2_pos)
  have r: "round_f64 x = of_int (round_half_even (x / u)) * u"
    using assms by (simp add: round_f64_def u_def Let_def)
  have "\<bar>round_f64 x - x\<bar> = \<bar>of_int (round_half_even (x / u)) - x / u\<bar> * u"
    using u by (simp add: r abs_mult [symmetric] field_simps del: abs_mult)
  also have "\<dots> \<le> \<bar>of_int m - x / u\<bar> * u"
    using u round_half_even_nearest [of "x / u" m] by (simp add: mult_right_mono)
  also have "\<dots> = \<bar>of_int m * u - x\<bar>"
    using u by (simp add: abs_mult [symmetric] field_simps del: abs_mult)
  finally show ?thesis by (simp add: u_def)
qed

lemma round_f64_fixed:
  assumes "x = of_int n * pow2 (expo x - 52)"
  shows "round_f64 x = x"
proof (cases "x = 0")
  case True
  then show ?thesis by (simp add: round_f64_def)
next
  case False
  define u where "u = pow2 (expo x - 52)"
  have u: "0 < u" by (simp add: u_def pow2_pos)
  have xu: "x = of_int n * u" using assms by (simp only: u_def)
  then have "x / u = of_int n" using u by simp
  then have "round_half_even (x / u) = n" by (simp add: round_half_even_of_int)
  then have "round_f64 x = of_int n * u"
    using False by (simp add: round_f64_def Let_def u_def [symmetric])
  with xu show ?thesis by simp
qed

lemma round_f64_significand:
  assumes "x \<noteq> 0"
  shows "\<exists>n. round_f64 x = of_int n * pow2 (expo x - 52) \<and> 2 ^ 52 \<le> \<bar>n\<bar> \<and> \<bar>n\<bar> \<le> 2 ^ 53"
proof -
  define u where "u = pow2 (expo x - 52)"
  define q where "q = x / u"
  define n where "n = round_half_even q"
  have u: "0 < u" by (simp add: u_def pow2_pos)
  have r: "round_f64 x = of_int n * u"
    using assms by (simp add: round_f64_def u_def q_def n_def Let_def)
  have e: "pow2 (expo x) = 2 ^ 52 * u"
    using pow2_add_nat [of "expo x - 52" 52] by (simp add: u_def)
  have "expo x + 1 = expo x - 52 + int 53" by simp
  then have "pow2 (expo x + 1) = pow2 (expo x - 52 + int 53)" by (rule arg_cong)
  then have e1: "pow2 (expo x + 1) = 2 ^ 53 * u"
    by (simp only: pow2_add_nat u_def)
  from expo_bounds [OF assms] have "2 ^ 52 * u \<le> \<bar>x\<bar>" "\<bar>x\<bar> < 2 ^ 53 * u"
    by (simp_all add: e e1)
  then have q: "2 ^ 52 \<le> \<bar>q\<bar>" "\<bar>q\<bar> < 2 ^ 53"
    using u by (simp_all add: q_def field_simps)
  have b: "\<lfloor>q\<rfloor> \<le> n" "n \<le> \<lceil>q\<rceil>"
    using round_half_even_between [of q] by (simp_all add: n_def)
  have p: "(2::int) ^ 52 = 4503599627370496" "(2::int) ^ 53 = 9007199254740992"
    by simp_all
  have "2 ^ 52 \<le> \<bar>n\<bar> \<and> \<bar>n\<bar> \<le> 2 ^ 53"
  proof (cases "0 \<le> q")
    case True
    with q have "(2::real) ^ 52 \<le> q" "q < 2 ^ 53" by simp_all
    then have "(2::int) ^ 52 \<le> \<lfloor>q\<rfloor>" "\<lceil>q\<rceil> \<le> (2::int) ^ 53"
      by (simp_all add: le_floor_iff ceiling_le_iff)
    with b p show ?thesis by linarith
  next
    case False
    with q have "q \<le> - ((2::real) ^ 52)" "- ((2::real) ^ 53) < q" by simp_all
    then have "\<lceil>q\<rceil> \<le> - ((2::int) ^ 52)" "- ((2::int) ^ 53) \<le> \<lfloor>q\<rfloor>"
      by (simp_all add: le_floor_iff ceiling_le_iff)
    with b p show ?thesis by linarith
  qed
  with r show ?thesis by (auto simp: u_def)
qed

text \<open>
  7, 2, 30, 360 and 1 are binary64 numbers, and in binary64 the forward of spot 7 at
  both rates 2 over 30 days is the next number above 7: the quotient 60 / 360 is
  rounded, so is the factor \<open>1 + 60 / 360\<close>, and the product and the quotient by it
  are rounded again.
\<close>

lemma f64_arguments:
  "round_f64 7 = 7 \<and> round_f64 2 = 2 \<and> round_f64 30 = 30 \<and> round_f64 360 = 360 \<and>
   round_f64 1 = 1"
  by code_simp

lemma theoretical_forward_f64_example:
  "theoretical_forward_f64 7 2 2 30 = Inr (7 + 1 / 2 ^ 50)"
  by code_simp

text \<open>
  C9. With equal rates the forward is not the spot in general: there are a spot above 0,
  a rate and a tenor above 0, with a nonzero denominator, for which
  \<open>theoretical_forward\<close>, evaluated in binary64 as Python evaluates it, returns a number
  other than the spot.
\<close>

theorem theoretical_forward_equal_rates_differs:
  "\<exists>spot r tenor_days v.
      0 < spot \<and> 0 < tenor_days \<and> 1 + r * of_int tenor_days / 360 \<noteq> 0 \<and>
      round_f64 spot = spot \<and> round_f64 r = r \<and>
      theoretical_forward_f64 spot r r tenor_days = Inr v \<and> v \<noteq> spot"
proof (intro exI conjI)
  show "theoretical_forward_f64 7 2 2 30 = Inr (7 + 1 / 2 ^ 50)"
    by (rule theoretical_forward_f64_example)
  show "round_f64 7 = 7" "round_f64 2 = 2"
    using f64_arguments by simp_all
qed simp_all

section \<open>Signal classification: results\<close>

text \<open>
  C4. For a threshold \<open>t \<ge> 0\<close> the dashboard's classifier and the signal rule of
  \<open>run_backtest\<close> both give Sell (the label of a rich forward, the signal -1) if and
  only if \<open>x > t\<close>, Buy (the label of a cheap forward, the signal +1) if and only if
  \<open>x < -t\<close>, and no action otherwise; a deviation equal to \<open>t\<close> or to \<open>-t\<close> is no action.
\<close>

theorem signal_rule:
  assumes "0 \<le> t"
  shows "((app_signal x t = Rich_Sell_forward) = (t < x)) \<and>
         ((app_signal x t = Cheap_Buy_forward) = (x < - t)) \<and>
         ((app_signal x t = No_arbitrage) = (- t \<le> x \<and> x \<le> t)) \<and>
         ((run_backtest_signal t (Num x) = - 1) = (t < x)) \<and>
         ((run_backtest_signal t (Num x) = 1) = (x < - t)) \<and>
         ((run_backtest_signal t (Num x) = 0) = (- t \<le> x \<and> x \<le> t)) \<and>
         app_signal t t = No_arbitrage \<and> app_signal (- t) t = No_arbitrage \<and>
         run_backtest_signal t (Num t) = 0 \<and> run_backtest_signal t (Num (- t)) = 0"
  using assms by (auto simp: app_signal_def run_backtest_signal_def Let_def)

theorem signal_rule_witness:
  "(0::real) \<le> 1 \<and> app_signal 1 1 = No_arbitrage \<and> app_signal 2 1 = Rich_Sell_forward \<and>
   run_backtest_signal 1 (Num (- 2)) = 1"
proof -
  have h: "(0::real) \<le> 1" by simp
  show ?thesis
    using h signal_rule [OF h, of 1] signal_rule [OF h, of 2] signal_rule [OF h, of "- 2"]
    by simp
qed

text \<open>
  Every column of the frame has one cell per row of \<^verbatim>\<open>spot\<close>, and the drivers
  return a frame whenever the denominator of the forward is not zero.
\<close>

lemma length_ffill_from: "length (ffill_from prev xs) = length xs"
  by (induction prev xs rule: ffill_from.induct) simp_all

lemma length_ffill: "length (ffill xs) = length xs"
  by (simp add: ffill_def length_ffill_from)

lemma length_apply_theoretical_forward:
  "apply_theoretical_forward ss r_dom r_for tenor_days = Inr fs \<Longrightarrow> length fs = length ss"
  by (induction ss arbitrary: fs) (auto split: sum.splits)

lemma length_shift_neg: "length (shift_neg k xs) = length xs"
  by (simp add: shift_neg_def)

lemma pnl_frame_lengths:
  assumes "length swaps = length spots" and "length theos = length spots"
    and "length obss = length spots" and "length devs = length spots"
    and "length signals = length spots"
  shows "length (exit_spot_col (pnl_frame spots swaps theos obss devs signals
                                  tenor_days notional spread_bps stop_loss_bps)) = length spots \<and>
         length (raw_pnl_col (pnl_frame spots swaps theos obss devs signals
                                  tenor_days notional spread_bps stop_loss_bps)) = length spots \<and>
         length (pnl_col (pnl_frame spots swaps theos obss devs signals
                                  tenor_days notional spread_bps stop_loss_bps)) = length spots"
  using assms by (simp add: pnl_frame_def Let_def length_shift_neg)

lemma backtest_frame_lengths:
  assumes "backtest_frame spot swap_pts tenor_days r_dom r_for notional spread_bps stop_loss_bps = Inr df"
  shows "length (dev_bps_col df) = length spot \<and> length (signal_col df) = length spot \<and>
         length (pnl_col df) = length spot"
proof -
  from assms obtain theos where
    t: "apply_theoretical_forward (map snd spot) r_dom r_for tenor_days = Inr theos"
    by (auto simp: backtest_frame_def Let_def split: sum.splits)
  have lt: "length theos = length spot"
    using length_apply_theoretical_forward [OF t] by simp
  show ?thesis
    using assms t lt
    by (auto simp: backtest_frame_def pnl_frame_def Let_def reindex_def
                   length_ffill length_shift_neg)
qed

lemma run_backtest_frame_lengths:
  assumes "run_backtest_frame spot swap_pts threshold_bps stop_loss_bps spread_bps
             tenor_days r_dom r_for notional = Inr df"
  shows "length (dev_bps_col df) = length spot \<and> length (signal_col df) = length spot \<and>
         length (pnl_col df) = length spot"
proof -
  from assms obtain theos where
    t: "apply_theoretical_forward (map snd spot) r_dom r_for tenor_days = Inr theos"
    by (auto simp: run_backtest_frame_def Let_def split: sum.splits)
  have lt: "length theos = length spot"
    using length_apply_theoretical_forward [OF t] by simp
  show ?thesis
    using assms t lt
    by (auto simp: run_backtest_frame_def pnl_frame_def Let_def reindex_def
                   length_ffill length_shift_neg)
qed

lemma backtest_frame_returns:
  "1 + r_for * of_int tenor_days / 360 \<noteq> 0 \<Longrightarrow>
   \<exists>df. backtest_frame spot swap_pts tenor_days r_dom r_for notional spread_bps stop_loss_bps = Inr df"
proof -
  assume d: "1 + r_for * of_int tenor_days / 360 \<noteq> 0"
  have "\<exists>fs. apply_theoretical_forward ss r_dom r_for tenor_days = Inr fs" for ss
    using d by (induction ss) (auto simp: theoretical_forward_def Let_def)
  then obtain theos where
    "apply_theoretical_forward (map snd spot) r_dom r_for tenor_days = Inr theos"
    by blast
  then show ?thesis
    by (simp add: backtest_frame_def Let_def)
qed

lemma run_backtest_frame_returns:
  "1 + r_for * of_int tenor_days / 360 \<noteq> 0 \<Longrightarrow>
   \<exists>df. run_backtest_frame spot swap_pts threshold_bps stop_loss_bps spread_bps
          tenor_days r_dom r_for notional = Inr df"
proof -
  assume d: "1 + r_for * of_int tenor_days / 360 \<noteq> 0"
  have "\<exists>fs. apply_theoretical_forward ss r_dom r_for tenor_days = Inr fs" for ss
    using d by (induction ss) (auto simp: theoretical_forward_def Let_def)
  then obtain theos where
    "apply_theoretical_forward (map snd spot) r_dom r_for tenor_days = Inr theos"
    by blast
  then show ?thesis
    by (simp add: run_backtest_frame_def Let_def)
qed

lemma run_backtest_raises:
  "1 + r_for * of_int tenor_days / 360 = 0 \<Longrightarrow> spot \<noteq> [] \<Longrightarrow>
   run_backtest spot swap_pts threshold_bps stop_loss_bps spread_bps tenor_days r_dom r_for notional
     = Inl ZeroDivisionError"
  by (cases spot)
     (simp_all add: run_backtest_def run_backtest_frame_def theoretical_forward_def Let_def)

text \<open>
  The signal column of \<open>backtest\<close> is its rule applied to the deviation column.
\<close>

lemma backtest_frame_signal:
  "backtest_frame spot swap_pts tenor_days r_dom r_for notional spread_bps stop_loss_bps = Inr df \<Longrightarrow>
   signal_col df = map backtest_signal (dev_bps_col df)"
  by (auto simp: backtest_frame_def pnl_frame_def Let_def split: sum.splits)

text \<open>
  C10. In the frame of \<open>backtest\<close>, every row of the spot series whose deviation is
  above 0 has the signal -1 (sell) and every row whose deviation is below 0 has the
  signal +1 (buy): the signal is the one \<open>run_backtest\<close> gives at the threshold 0, and
  \<open>backtest\<close> has no threshold parameter.
\<close>

theorem backtest_signal_zero_threshold:
  assumes "backtest_frame spot swap_pts tenor_days r_dom r_for notional spread_bps stop_loss_bps = Inr df"
    and "i < length spot"
  shows "(cell_gt (dev_bps_col df ! i) 0 \<longrightarrow> signal_col df ! i = - 1) \<and>
         (cell_lt (dev_bps_col df ! i) 0 \<longrightarrow> signal_col df ! i = 1) \<and>
         signal_col df ! i = run_backtest_signal 0 (dev_bps_col df ! i)"
proof -
  have "i < length (dev_bps_col df)"
    using backtest_frame_lengths [OF assms(1)] assms(2) by simp
  then have "signal_col df ! i = backtest_signal (dev_bps_col df ! i)"
    using backtest_frame_signal [OF assms(1)] by simp
  then show ?thesis
    by (cases "dev_bps_col df ! i") (simp_all add: backtest_signal_def run_backtest_signal_def)
qed

theorem backtest_signal_zero_threshold_witness:
  "backtest_frame [(0, 1), (1, 1), (2, 1)] [(0, 36 / 1000), (1, - 36 / 1000)] 1 0 0 1000000 (1 / 2) 5 =
     Inr \<lparr> spot_col = [1, 1, 1],
           swap_pts_col = [Some (9 / 250), Some (- (9 / 250)), Some (- (9 / 250))],
           theo_fwd_col = [1, 1, 1],
           obs_fwd_col = [Some (10001 / 10000), Some (9999 / 10000), Some (9999 / 10000)],
           dev_bps_col = [Num 1, Num (- 1), Num (- 1)],
           signal_col = [- 1, 1, 1],
           exit_spot_col = [Some 1, Some 1, None],
           raw_pnl_col = [Some 100, Some 100, None],
           pnl_col = [Some 50, Some 50, None] \<rparr> \<and>
   (0::nat) < length [(0::nat, 1::real), (1, 1), (2, 1)] \<and>
   cell_gt (Num 1) 0 \<and> [- 1, 1, 1 :: int] ! 0 = - 1 \<and>
   (1::nat) < length [(0::nat, 1::real), (1, 1), (2, 1)] \<and>
   cell_lt (Num (- 1)) 0 \<and> [- 1, 1, 1 :: int] ! 1 = 1"
proof -
  let ?df = "\<lparr> spot_col = [1, 1, 1],
           swap_pts_col = [Some (9 / 250), Some (- (9 / 250)), Some (- (9 / 250))],
           theo_fwd_col = [1, 1, 1],
           obs_fwd_col = [Some (10001 / 10000), Some (9999 / 10000), Some (9999 / 10000)],
           dev_bps_col = [Num 1, Num (- 1), Num (- 1)],
           signal_col = [- 1, 1, 1],
           exit_spot_col = [Some 1, Some 1, None],
           raw_pnl_col = [Some 100, Some 100, None],
           pnl_col = [Some 50, Some 50, None] \<rparr>"
  have h: "backtest_frame [(0, 1), (1, 1), (2, 1)] [(0, 36 / 1000), (1, - 36 / 1000)]
             1 0 0 1000000 (1 / 2) 5 = Inr ?df"
    by code_simp
  have i0: "0 < length [(0::nat, 1::real), (1, 1), (2, 1)]"
    and i1: "1 < length [(0::nat, 1::real), (1, 1), (2, 1)]"
    by simp_all
  show ?thesis
    using h backtest_signal_zero_threshold [OF h i0] backtest_signal_zero_threshold [OF h i1]
    by simp
qed

section \<open>PnL: results\<close>

text \<open>
  C5. For every signal, observed forward, exit reference, notional, spread and stop-loss
  (in particular for a positive notional and non-negative spread and stop-loss), the PnL
  of a row of the drivers is a number and is at least \<open>- stop_loss_bps / 10000 * notional\<close>.
\<close>

theorem pnl_floor:
  "\<exists>p. row_pnl notional spread_bps stop_loss_bps signal (Some exit_ref) (Some obs_fwd) = Some p \<and>
       - stop_loss_bps / 10000 * notional \<le> p"
  by (simp add: row_pnl_def pnl_cell_def raw_pnl_cell_def Let_def)

text \<open>
  The same on the frames of the two drivers: a row with a missing exit price or observed
  forward has no PnL, and every row that \<^verbatim>\<open>dropna\<close> keeps is at or above the floor.
\<close>

lemma row_pnl_ge_floor:
  "row_pnl notional spread_bps stop_loss_bps sg ex ob = Some p \<Longrightarrow>
   - stop_loss_bps / 10000 * notional \<le> p"
  by (auto simp: row_pnl_def pnl_cell_def raw_pnl_cell_def Let_def
           split: option.splits if_splits)

lemma row_pnl_missing:
  "row_pnl notional spread_bps stop_loss_bps sg None ob = None"
  "row_pnl notional spread_bps stop_loss_bps sg ex None = None"
  by (simp_all add: row_pnl_def pnl_cell_def raw_pnl_cell_def Let_def split: option.splits)

lemma dropna_pnl_set:
  "((sg, p) \<in> set (dropna_pnl rows)) = ((sg, Some p) \<in> set rows)"
  by (induction rows) (auto simp: dropna_pnl_def List.map_filter_simps split: option.splits)

lemma pnl_frame_rows:
  assumes "(sg, Some p) \<in> set (zip (signal_col df) (pnl_col df))"
    and "df = pnl_frame spots swaps theos obss devs signals tenor_days notional spread_bps stop_loss_bps"
  shows "\<exists>ex ob. row_pnl notional spread_bps stop_loss_bps sg ex ob = Some p"
proof -
  let ?exits = "shift_neg tenor_days spots"
  let ?raws = "map (\<lambda>(sg, ex, ob). raw_pnl_cell notional sg ex ob) (zip signals (zip ?exits obss))"
  let ?cost = "spread_bps / 10000 * notional"
  let ?stop = "stop_loss_bps / 10000 * notional"
  from assms have "(sg, Some p) \<in> set (zip signals (map2 (pnl_cell ?cost ?stop) signals ?raws))"
    by (simp add: pnl_frame_def Let_def)
  then obtain i where i: "i < length signals" "i < length ?raws"
      and sg: "signals ! i = sg"
      and p: "pnl_cell ?cost ?stop (signals ! i) (?raws ! i) = Some p"
    by (auto simp: in_set_zip)
  from i have "i < length (zip signals (zip ?exits obss))" by simp
  then have "?raws ! i = raw_pnl_cell notional (signals ! i) (?exits ! i) (obss ! i)"
    by (simp add: case_prod_beta)
  with p sg show ?thesis
    by (auto simp: row_pnl_def Let_def)
qed

lemma run_backtest_frame_is_pnl_frame:
  "run_backtest_frame spot swap_pts threshold_bps stop_loss_bps spread_bps tenor_days r_dom r_for notional
     = Inr df \<Longrightarrow>
   \<exists>spots swaps theos obss devs signals.
     df = pnl_frame spots swaps theos obss devs signals tenor_days notional spread_bps stop_loss_bps"
  by (simp add: run_backtest_frame_def Let_def split: sum.splits) blast

lemma backtest_frame_is_pnl_frame:
  "backtest_frame spot swap_pts tenor_days r_dom r_for notional spread_bps stop_loss_bps = Inr df \<Longrightarrow>
   \<exists>spots swaps theos obss devs signals.
     df = pnl_frame spots swaps theos obss devs signals tenor_days notional spread_bps stop_loss_bps"
  by (simp add: backtest_frame_def Let_def split: sum.splits) blast

lemma pnl_frame_trades_floor:
  assumes "df = pnl_frame spots swaps theos obss devs signals tenor_days notional spread_bps stop_loss_bps"
    and "(sg, p) \<in> set (trades_of df)"
  shows "- stop_loss_bps / 10000 * notional \<le> p"
proof -
  from assms(2) have "(sg, Some p) \<in> set (zip (signal_col df) (pnl_col df))"
    by (simp add: trades_of_def dropna_pnl_set)
  from pnl_frame_rows [OF this assms(1)] show ?thesis
    by (auto dest: row_pnl_ge_floor)
qed

lemma run_backtest_trades_floor:
  assumes "run_backtest_frame spot swap_pts threshold_bps stop_loss_bps spread_bps
             tenor_days r_dom r_for notional = Inr df"
    and "(sg, p) \<in> set (trades_of df)"
  shows "- stop_loss_bps / 10000 * notional \<le> p"
proof -
  from run_backtest_frame_is_pnl_frame [OF assms(1)]
  obtain spots swaps theos obss devs signals where
    "df = pnl_frame spots swaps theos obss devs signals tenor_days notional spread_bps stop_loss_bps"
    by blast
  then show ?thesis
    using assms(2) by (rule pnl_frame_trades_floor)
qed

lemma backtest_trades_floor:
  assumes "backtest_frame spot swap_pts tenor_days r_dom r_for notional spread_bps stop_loss_bps = Inr df"
    and "(sg, p) \<in> set (trades_of df)"
  shows "- stop_loss_bps / 10000 * notional \<le> p"
proof -
  from backtest_frame_is_pnl_frame [OF assms(1)]
  obtain spots swaps theos obss devs signals where
    "df = pnl_frame spots swaps theos obss devs signals tenor_days notional spread_bps stop_loss_bps"
    by blast
  then show ?thesis
    using assms(2) by (rule pnl_frame_trades_floor)
qed

text \<open>
  In the drivers, with \<open>stop_loss_bps \<ge> 0\<close> and a positive notional, a row whose signal
  is 0 and whose exit price and observed forward are known has PnL exactly 0, and a row
  whose signal is +1 or -1 has the raw PnL less the spread cost
  \<open>spread_bps / 10000 * notional\<close>, taken once, floored at the stop.
\<close>

lemma driver_no_action_pnl:
  assumes "0 \<le> stop_loss_bps" and "0 < notional"
  shows "row_pnl notional spread_bps stop_loss_bps 0 (Some exit_ref) (Some obs_fwd) = Some 0 \<and>
         (\<forall>sg \<in> {1, - 1}.
            row_pnl notional spread_bps stop_loss_bps sg (Some exit_ref) (Some obs_fwd) =
              Some (max (of_int sg * (exit_ref - obs_fwd) * notional - spread_bps / 10000 * notional)
                        (- (stop_loss_bps / 10000 * notional))))"
proof -
  have stop: "0 \<le> stop_loss_bps * notional"
    using assms by simp
  have none: "row_pnl notional spread_bps stop_loss_bps 0 (Some exit_ref) (Some obs_fwd) = Some 0"
    using stop by (simp add: row_pnl_def pnl_cell_def raw_pnl_cell_def Let_def)
  have active: "\<forall>sg \<in> {1, - 1}.
      row_pnl notional spread_bps stop_loss_bps sg (Some exit_ref) (Some obs_fwd) =
        Some (max (of_int sg * (exit_ref - obs_fwd) * notional - spread_bps / 10000 * notional)
                  (- (stop_loss_bps / 10000 * notional)))"
    by (simp add: row_pnl_def pnl_cell_def raw_pnl_cell_def Let_def max_def)
  from none active show ?thesis by blast
qed

text \<open>
  The dashboard computes the label and then a PnL figure that does not read it: the
  figure is \<open>(obs_fwd - theo_fwd) * 1000000\<close> less the spread cost, floored at the stop,
  for every label. A pair labelled as a buy, whose observed forward is below the
  theoretical one, therefore shows a loss.
\<close>

lemma app_pnl_ignores_label:
  "theo_fwd \<noteq> 0 \<Longrightarrow>
   \<exists>dev lbl. app_row obs_fwd theo_fwd threshold_bps spread_bps stop_loss_bps =
     Inr (dev, lbl, max ((obs_fwd - theo_fwd) * 1000000 - spread_bps / 10000 * 1000000)
                        (- (stop_loss_bps / 10000 * 1000000)))"
  by (simp add: app_row_def deviation_bps_def app_pnl_def Let_def max_def)

lemma app_buy_label_shows_loss:
  "app_row (9998 / 10000) 1 1 (1 / 10) 2 = Inr (- 2, Cheap_Buy_forward, - 200)"
  by (simp add: app_row_def deviation_bps_def app_signal_def app_pnl_def)

text \<open>
  C6 fails on the dashboard, where the drivers satisfy it. For a pair whose observed
  forward equals the theoretical one (the dashboard's defaults: manual provider, offset
  0, threshold 1 bps, spread 0.1 bps, stop 2 bps) the label is "No arbitrage" and the
  PnL figure is -10, minus the spread cost, where the claim says 0 and no cost. The
  drivers give a row with signal 0 the PnL 0 at the same spread and stop.
\<close>

theorem app_no_arbitrage_pays_spread:
  "app_row 1 1 1 (1 / 10) 2 = Inr (0, No_arbitrage, - 10) \<and>
   row_pnl 1000000 (1 / 10) 2 0 (Some 1) (Some 1) = Some 0"
  by (simp add: app_row_def deviation_bps_def app_signal_def app_pnl_def
                row_pnl_def pnl_cell_def raw_pnl_cell_def)

text \<open>
  On the frames of the two drivers: a kept row whose signal is 0 has PnL 0.
\<close>

lemma row_pnl_idle:
  assumes "row_pnl notional spread_bps stop_loss_bps 0 ex ob = Some p"
    and "0 \<le> stop_loss_bps" and "0 \<le> notional"
  shows "p = 0"
proof -
  have "0 \<le> stop_loss_bps * notional"
    using assms(2,3) by simp
  then show ?thesis
    using assms(1)
    by (auto simp: row_pnl_def pnl_cell_def raw_pnl_cell_def Let_def
             split: option.splits if_splits)
qed

lemma pnl_frame_trades_idle:
  assumes "df = pnl_frame spots swaps theos obss devs signals tenor_days notional spread_bps stop_loss_bps"
    and "(0, p) \<in> set (trades_of df)" and "0 \<le> stop_loss_bps" and "0 \<le> notional"
  shows "p = 0"
proof -
  from assms(2) have "(0, Some p) \<in> set (zip (signal_col df) (pnl_col df))"
    by (simp add: trades_of_def dropna_pnl_set)
  from pnl_frame_rows [OF this assms(1)] assms(3,4) show ?thesis
    by (auto dest: row_pnl_idle)
qed

lemma run_backtest_trades_idle:
  assumes "run_backtest_frame spot swap_pts threshold_bps stop_loss_bps spread_bps
             tenor_days r_dom r_for notional = Inr df"
    and "(0, p) \<in> set (trades_of df)" and "0 \<le> stop_loss_bps" and "0 \<le> notional"
  shows "p = 0"
proof -
  from run_backtest_frame_is_pnl_frame [OF assms(1)]
  obtain spots swaps theos obss devs signals where
    "df = pnl_frame spots swaps theos obss devs signals tenor_days notional spread_bps stop_loss_bps"
    by blast
  then show ?thesis
    using assms(2,3,4) by (rule pnl_frame_trades_idle)
qed

lemma backtest_trades_idle:
  assumes "backtest_frame spot swap_pts tenor_days r_dom r_for notional spread_bps stop_loss_bps = Inr df"
    and "(0, p) \<in> set (trades_of df)" and "0 \<le> stop_loss_bps" and "0 \<le> notional"
  shows "p = 0"
proof -
  from backtest_frame_is_pnl_frame [OF assms(1)]
  obtain spots swaps theos obss devs signals where
    "df = pnl_frame spots swaps theos obss devs signals tenor_days notional spread_bps stop_loss_bps"
    by blast
  then show ?thesis
    using assms(2,3,4) by (rule pnl_frame_trades_idle)
qed

section \<open>Summary statistics: results\<close>

text \<open>
  What the drivers report as the win rate: 100 times the number of kept rows with a
  positive PnL over the number of all kept rows, the rows with signal 0 among them, when
  at least one kept row has a nonzero signal, and 0 otherwise.
\<close>

lemma wins_count:
  "sum_list (map ((\<lambda>p. if 0 < p then 1 else 0) \<circ> snd) trades) =
     (of_nat (length (filter (\<lambda>(sg, p). 0 < p) trades)) :: real)"
  by (induction trades) auto

lemma summary_win_rate:
  "win_rate (summary trades) =
     (if num_trades (summary trades) \<noteq> 0
      then of_nat (length (filter (\<lambda>(sg, p). 0 < p) trades)) / of_nat (length trades) * 100
      else 0)"
  by (simp add: summary_def Let_def mean_def wins_count)

lemma summary_num_trades:
  "num_trades (summary trades) = length (filter (\<lambda>(sg, p). sg \<noteq> 0) trades)"
  by (simp add: summary_def Let_def)

text \<open>
  C7 fails on \<open>run_backtest\<close>. Three days of spot 1 with swap points 0 and 3.6, a
  threshold of 1 bps, a stop of 5 bps, a spread of 0.5 bps, a one-day tenor, both rates
  0 and a notional of 1000000: the first day is within the threshold (signal 0, PnL 0),
  the second is a sell that gains 9950, the third has no exit price and is dropped. The
  one trade wins, so the fraction of winning trades is 1; the win rate reported is 50
  (percent), the idle row being counted in the denominator.
\<close>

theorem run_backtest_win_rate_counts_idle_rows:
  "map_sum id trades_of
     (run_backtest_frame [(0, 1), (1, 1), (2, 1)] [(0, 0), (1, 36 / 10)] 1 5 (1 / 2) 1 0 0 1000000) =
     Inr [(0, 0), (- 1, 9950)] \<and>
   run_backtest [(0, 1), (1, 1), (2, 1)] [(0, 0), (1, 36 / 10)] 1 5 (1 / 2) 1 0 0 1000000 =
     Inr \<lparr> total_pnl = 9950, num_trades = 1, win_rate = 50, avg_pnl = 4975, max_drawdown = 0 \<rparr> \<and>
   spec_win_fraction [(0, 0), (- 1, 9950)] = 1"
  by code_simp

section \<open>Simulator: results\<close>

text \<open>
  The output has one row per simulation and one entry per day.
\<close>

lemma length_sim_days: "length (sim_days g k path obs_fwd n) = n"
  by (induction n arbitrary: k path) (simp_all add: Let_def)

lemma sim_runs_shape:
  "length (sim_runs g k spot0 obs_fwd days m) = m \<and>
   (\<forall>row \<in> set (sim_runs g k spot0 obs_fwd days m). length row = days)"
  by (induction m arbitrary: k) (simp_all add: length_sim_days)

lemma simulate_pnl_shape:
  "length (simulate_pnl g spot0 obs_fwd days sims) = nat sims \<and>
   (\<forall>row \<in> set (simulate_pnl g spot0 obs_fwd days sims). length row = nat days)"
  unfolding simulate_pnl_def by (rule sim_runs_shape)

text \<open>
  C8 fails: \<open>simulate_pnl\<close> has no seed parameter, and its output is not a function of
  its arguments. With the same spot, observed forward, days and number of simulations,
  a generator whose next draw is 0 gives the PnL -5000 and one whose next draw is 1/2
  gives 0.
\<close>

theorem simulate_pnl_not_determined_by_arguments:
  "simulate_pnl (\<lambda>_. 0) 1 1 1 1 = [[- 5000]] \<and> simulate_pnl (\<lambda>_. 1 / 2) 1 1 1 1 = [[0]] \<and>
   simulate_pnl (\<lambda>_. 0) 1 1 1 1 \<noteq> simulate_pnl (\<lambda>_. 1 / 2) 1 1 1 1"
  by (simp add: simulate_pnl_def uniform_def)

text \<open>
  A path reads its draws in order, one per day, and the runs read consecutive blocks.
\<close>

lemma sim_days_cong:
  "(\<forall>i<n. g (k + i) = g' (k + i)) \<Longrightarrow>
   sim_days g k path obs_fwd n = sim_days g' k path obs_fwd n"
proof (induction n arbitrary: k path)
  case 0
  show ?case by simp
next
  case (Suc n)
  have first: "g k = g' k"
    using Suc.prems by (metis add.right_neutral zero_less_Suc)
  have rest: "\<forall>i<n. g (Suc k + i) = g' (Suc k + i)"
    using Suc.prems by (metis Suc_less_eq add_Suc_shift)
  show ?case
    using first Suc.IH [OF rest] by (simp add: uniform_def Let_def)
qed

lemma sim_runs_cong:
  "(\<forall>i<m * days. g (k + i) = g' (k + i)) \<Longrightarrow>
   sim_runs g k spot0 obs_fwd days m = sim_runs g' k spot0 obs_fwd days m"
proof (induction m arbitrary: k)
  case 0
  show ?case by simp
next
  case (Suc m)
  have first: "\<forall>i<days. g (k + i) = g' (k + i)"
    using Suc.prems by simp
  have rest: "\<forall>i<m * days. g (k + days + i) = g' (k + days + i)"
  proof (intro allI impI)
    fix i assume "i < m * days"
    then have "days + i < Suc m * days" by simp
    then show "g (k + days + i) = g' (k + days + i)"
      using Suc.prems by (metis add.assoc)
  qed
  show ?case
    using sim_days_cong [OF first] Suc.IH [OF rest] by simp
qed

text \<open>
  Different draws need not give different output: from a spot of 0 the path stays 0.
\<close>

lemma simulate_pnl_zero_spot:
  "simulate_pnl (\<lambda>_. 0) 0 1 1 1 = simulate_pnl (\<lambda>_. 1 / 2) 0 1 1 1"
  by (simp add: simulate_pnl_def uniform_def)

text \<open>
  C8 (as the code has it). \<open>simulate_pnl\<close> has no seed parameter; it reads the next
  \<open>sims * days\<close> draws of the module's generator. If two runs with the same arguments
  get the same draws (as they do when the caller has put the generator in the same state
  before each run, which is what seeding it does), they return the same matrix. Runs
  that get different draws can return different matrices, as shown above.
\<close>

theorem simulate_pnl_determined_by_draws:
  assumes "\<forall>i < nat sims * nat days. g i = g' i"
  shows "simulate_pnl g spot0 obs_fwd days sims = simulate_pnl g' spot0 obs_fwd days sims"
  unfolding simulate_pnl_def using assms sim_runs_cong [of "nat sims" "nat days" g 0 g']
  by simp

theorem simulate_pnl_determined_by_draws_witness:
  "(if (0::nat) < 2 then 1 / 2 else 0) = 1 / (2::real) \<and>
   (if (1::nat) < 2 then 1 / 2 else 0) = 1 / (2::real) \<and>
   (if (2::nat) < 2 then 1 / 2 else 0) \<noteq> 1 / (2::real) \<and>
   simulate_pnl (\<lambda>i. if i < 2 then 1 / 2 else 0) 1 1 2 1 = simulate_pnl (\<lambda>_. 1 / 2) 1 1 2 1"
proof -
  have h: "\<forall>i < nat 1 * nat 2. (\<lambda>i. if i < 2 then 1 / 2 else 0) i = (\<lambda>_. 1 / (2::real)) i"
    by simp
  show ?thesis
    using simulate_pnl_determined_by_draws [OF h, of 1 1] by simp
qed

end
